theory Spec2Isabelle
  imports Main "HOL-Library.Word"
begin

section \<open>PackedArray: a header contiguous with an array of elements\<close>

text \<open>
  This theory embeds \<^verbatim>\<open>libraries/lib-utility/PackedArray.h\<close>. The header is a set of C++
  templates; an instantiation is determined by the managed type \<^verbatim>\<open>Type\<close>, by
  \<^verbatim>\<open>Traits<Type>\<close> and by the sizes and offsets the compiler assigns to the types involved.
  Those compile-time quantities are collected in the record \<open>Traits\<close> and passed to every
  function where the source has the template parameter.

  \<^verbatim>\<open>size_t\<close> is an unsigned machine integer of some width \<open>w\<close>: the type \<open>'w word\<close>, on
  which \<open>+\<close>, \<open>-\<close> and \<open>*\<close> wrap modulo \<open>2 ^ w\<close>, \<open>div\<close> is the unsigned division and
  \<open>max\<close> the unsigned maximum. The pointer to a block, as a handle stores it and as the
  allocation functions exchange it, is \<open>None\<close> for \<^verbatim>\<open>nullptr\<close> and \<open>Some a\<close> for the byte
  address \<open>a\<close>, with \<open>0 < a < 2 ^ w\<close>. The pointers that \<^verbatim>\<open>begin\<close>, \<^verbatim>\<open>end\<close> and the subscript
  operator compute are machine words, 0 being \<^verbatim>\<open>nullptr\<close>: their arithmetic is the
  machine's and wraps modulo \<open>2 ^ w\<close>.
\<close>

subsection \<open>Compile-time data of one instantiation\<close>

text \<open>The type parameter \<open>'s\<close> of the records and of the events is \<^verbatim>\<open>size_t\<close>, used at \<open>'w word\<close>.\<close>

record 's Traits =
  sizeof_Type :: 's  \<comment> \<open>\<^verbatim>\<open>sizeof(managed_type)\<close>\<close>
  sizeof_header :: 's  \<comment> \<open>\<^verbatim>\<open>sizeof(header_type)\<close>; nonzero also for an empty type\<close>
  is_empty_header :: bool  \<comment> \<open>\<^verbatim>\<open>std::is_empty_v<header_type>\<close>\<close>
  sizeof_element :: 's  \<comment> \<open>\<^verbatim>\<open>sizeof(element_type)\<close>\<close>
  sizeof_iterated :: 's  \<comment> \<open>\<^verbatim>\<open>sizeof(iterated_type)\<close>\<close>
  sizeof_Overlay :: 's  \<comment> \<open>\<^verbatim>\<open>sizeof(Overlay)\<close>\<close>
  offsetof_elements :: 's  \<comment> \<open>\<^verbatim>\<open>offsetof(Overlay, elements)\<close>\<close>

type_synonym pointer = "nat option"

subsection \<open>Observable effects\<close>

text \<open>
  Destructor calls, constructor completions and calls of the allocation functions are
  recorded, in the order in which they happen, in a log that every effectful function
  takes and returns extended.
\<close>

datatype 's event =
  OperatorNew 's  \<comment> \<open>a call \<^verbatim>\<open>::operator new(n)\<close>\<close>
  | Constructed nat  \<comment> \<open>the constructor of \<^verbatim>\<open>Type\<close> has completed at this address\<close>
  | OperatorDelete nat  \<comment> \<open>a call \<^verbatim>\<open>::operator delete(p)\<close>\<close>
  | DestroyElement int  \<comment> \<open>\<^verbatim>\<open>~element_type()\<close> on \<^verbatim>\<open>pOverlay->elements[i]\<close>\<close>
  | DestroyHeader  \<comment> \<open>\<^verbatim>\<open>pOverlay->~header_type()\<close>\<close>
  | BaseDelete nat  \<comment> \<open>the call of \<^verbatim>\<open>BaseDeleter<Type>\<close> on the block\<close>

subsection \<open>Deleter\<close>

record 's Deleter =
  mCount :: 's

text \<open>
  \<^verbatim>\<open>Deleter(size_t size = 0) noexcept
   : mCount{ (size - sizeof(header_type)) / sizeof(element_type) } {}\<close>
\<close>

definition Deleter_ctor :: "'w::len word Traits \<Rightarrow> 'w word \<Rightarrow> 'w word Deleter" where
  "Deleter_ctor T sz = \<lparr>mCount = (sz - sizeof_header T) div sizeof_element T\<rparr>"

definition Deleter_default :: "'w::len word Traits \<Rightarrow> 'w word Deleter" where
  "Deleter_default T = Deleter_ctor T 0"

definition GetCount :: "'w::len word Deleter \<Rightarrow> 'w word" where
  "GetCount d = mCount d"

text \<open>
  The loop \<^verbatim>\<open>for (auto count = mCount; count--;) (--pE)->~element_type();\<close>.
  \<open>pE\<close> is kept as the subscript of the element it points to in
  \<^verbatim>\<open>pOverlay->elements\<close>; it starts at \<^verbatim>\<open>elements + mCount\<close>.
\<close>

function destroy_elements ::
  "'w::len word \<Rightarrow> int \<Rightarrow> 'w word event list \<Rightarrow> 'w word event list" where
  "destroy_elements count pE log =
     (if count = 0 then log
      else destroy_elements (count - 1) (pE - 1) (log @ [DestroyElement (pE - 1)]))"
  by pat_completeness auto
termination
  by (relation "measure (\<lambda>(count, pE, log). unat count)") (simp_all add: unat_minus_one unat_gt_0)

declare destroy_elements.simps [simp del]

text \<open>
  \<^verbatim>\<open>void operator()(Type *p) const\<close>: nothing for a null pointer; otherwise the elements
  by decreasing subscript, then the header, then the base deleter.
\<close>

definition Deleter_call ::
  "'w::len word Deleter \<Rightarrow> pointer \<Rightarrow> 'w word event list \<Rightarrow> 'w word event list" where
  "Deleter_call d p log =
     (case p of
        None \<Rightarrow> log
      | Some a \<Rightarrow>
          (let pE = uint (mCount d);
               log1 = destroy_elements (mCount d) pE log;
               log2 = log1 @ [DestroyHeader]
           in log2 @ [BaseDelete a]))"

subsection \<open>Ptr\<close>

text \<open>
  \<^verbatim>\<open>Ptr\<close> is a \<^verbatim>\<open>std::unique_ptr<Type, Deleter<Type, BaseDeleter>>\<close>: the stored pointer
  and the deleter. Its default constructor stores \<^verbatim>\<open>nullptr\<close> and a value-initialised
  deleter, which is \<^verbatim>\<open>Deleter(0)\<close>; its destructor calls the deleter on the stored
  pointer when that is not null.
\<close>

record 's Ptr =
  get :: pointer
  get_deleter :: "'s Deleter"

definition Ptr_default :: "'w::len word Traits \<Rightarrow> 'w word Ptr" where
  "Ptr_default T = \<lparr>get = None, get_deleter = Deleter_default T\<rparr>"

definition Ptr_destroy :: "'w::len word Ptr \<Rightarrow> 'w word event list \<Rightarrow> 'w word event list" where
  "Ptr_destroy p log =
     (if get p \<noteq> None then Deleter_call (get_deleter p) (get p) log else log)"

definition Count :: "'w::len word Ptr \<Rightarrow> 'w word" where
  "Count p = GetCount (get_deleter p)"


text \<open>
  The machine value of a block pointer, as in \<^verbatim>\<open>void *ptr = p.get();\<close>: 0 for
  \<^verbatim>\<open>nullptr\<close>, the address otherwise.
\<close>

definition pointer_value :: "pointer \<Rightarrow> 'w::len word" where
  "pointer_value q = (case q of None \<Rightarrow> 0 | Some a \<Rightarrow> of_nat a)"

text \<open>
  \<^verbatim>\<open>begin(p)\<close>: the stored pointer as \<^verbatim>\<open>char*\<close>, advanced by
  \<^verbatim>\<open>std::is_empty_v<header_type> ? 0 : sizeof(header_type)\<close>, or \<^verbatim>\<open>nullptr\<close>; the result
  is an \<^verbatim>\<open>iterated_type*\<close>.
\<close>

definition begin_Ptr :: "'w::len word Traits \<Rightarrow> 'w word Ptr \<Rightarrow> 'w word" where
  "begin_Ptr T p =
     (let ptr = pointer_value (get p)
      in if ptr \<noteq> 0
         then ptr + (if is_empty_header T then 0 else sizeof_header T)
         else 0)"

text \<open>
  \<^verbatim>\<open>end(p)\<close>: \<^verbatim>\<open>auto result = begin(p); if (result) result += Count(p); return result;\<close>.
  Adding \<open>n\<close> to an \<^verbatim>\<open>iterated_type*\<close> advances the address by \<open>n\<close> times
  \<^verbatim>\<open>sizeof(iterated_type)\<close> bytes, modulo \<open>2 ^ w\<close>.
\<close>

definition end_Ptr :: "'w::len word Traits \<Rightarrow> 'w word Ptr \<Rightarrow> 'w word" where
  "end_Ptr T p =
     (let result = begin_Ptr T p
      in if result \<noteq> 0 then result + Count p * sizeof_iterated T else result)"

text \<open>
  \<^verbatim>\<open>auto &operator[](size_t ii) const { return *(begin(*this) + ii); }\<close>.
  The result is the address the returned reference is bound to, \<open>begin\<close> advanced by
  \<open>ii\<close> elements of the iterated type modulo \<open>2 ^ w\<close>. The source does not test for
  null; on a null handle the behaviour of the C++ expression is undefined, which is the
  value \<open>Inl null_dereference\<close> here.
\<close>

datatype fault = null_dereference

definition subscript ::
  "'w::len word Traits \<Rightarrow> 'w word Ptr \<Rightarrow> 'w word \<Rightarrow> fault + 'w word" where
  "subscript T p ii =
     (let b = begin_Ptr T p
      in if b = 0 then Inl null_dereference else Inr (b + ii * sizeof_iterated T))"

subsection \<open>The static assertions of Deleter\<close>

text \<open>
  \<^verbatim>\<open>static_assert(sizeof(Overlay) == sizeof(managed_type));\<close>
\<close>

definition static_assert_size :: "'w::len word Traits \<Rightarrow> bool" where
  "static_assert_size T = (sizeof_Overlay T = sizeof_Type T)"

text \<open>
  \<^verbatim>\<open>static_assert(offsetof(Overlay, elements) ==
      std::is_empty_v<header_type> ? 0 : sizeof(header_type));\<close>

  In C++ \<^verbatim>\<open>==\<close> binds tighter than \<^verbatim>\<open>?:\<close>, so the asserted expression is
  \<^verbatim>\<open>(offsetof(Overlay, elements) == std::is_empty_v<header_type>) ? 0 : sizeof(header_type)\<close>:
  the offset is compared with the boolean converted to 1 or 0, and the selected
  \<^verbatim>\<open>size_t\<close> passes the assertion when it is nonzero.
\<close>

definition static_assert_offset :: "'w::len word Traits \<Rightarrow> bool" where
  "static_assert_offset T =
     ((if offsetof_elements T = (if is_empty_header T then 1 else 0)
       then 0 else sizeof_header T) \<noteq> 0)"

text \<open>\<^verbatim>\<open>Deleter<Type>\<close> compiles when both assertions pass.\<close>

definition static_asserts :: "'w::len word Traits \<Rightarrow> bool" where
  "static_asserts T = (static_assert_size T \<and> static_assert_offset T)"

subsection \<open>Allocation\<close>

text \<open>
  The outcome of \<^verbatim>\<open>::operator new\<close> and of the constructor of \<^verbatim>\<open>Type\<close> are inputs of the
  model: \<open>heap\<close> is the address \<^verbatim>\<open>::operator new\<close> returns, or \<open>None\<close> when it throws
  \<^verbatim>\<open>std::bad_alloc\<close>; \<open>ctor\<close> tells whether \<^verbatim>\<open>Type{ args... }\<close> completes or throws.
\<close>

datatype failure = bad_alloc | constructor_threw

definition global_operator_new ::
  "pointer \<Rightarrow> 'w::len word \<Rightarrow> 'w word event list \<Rightarrow> (failure + nat) \<times> 'w word event list" where
  "global_operator_new heap n log =
     (case heap of None \<Rightarrow> Inl bad_alloc | Some a \<Rightarrow> Inr a, log @ [OperatorNew n])"

definition global_operator_delete :: "nat \<Rightarrow> 'w::len word event list \<Rightarrow> 'w word event list" where
  "global_operator_delete p log = log @ [OperatorDelete p]"

text \<open>
  \<^verbatim>\<open>inline void *operator new(size_t size, PackedArray_t, size_t enlarged) {
   return ::operator new(std::max(size, enlarged)); }\<close>
\<close>

definition operator_new_PackedArray ::
  "pointer \<Rightarrow> 'w::len word \<Rightarrow> 'w word \<Rightarrow> 'w word event list
     \<Rightarrow> (failure + nat) \<times> 'w word event list" where
  "operator_new_PackedArray heap sz enlarged log =
     global_operator_new heap (max sz enlarged) log"

text \<open>
  \<^verbatim>\<open>inline void operator delete(void *p, PackedArray_t, size_t) { ::operator delete(p); }\<close>
\<close>

definition operator_delete_PackedArray ::
  "nat \<Rightarrow> 'w::len word \<Rightarrow> 'w word event list \<Rightarrow> 'w word event list" where
  "operator_delete_PackedArray p enlarged log = global_operator_delete p log"

text \<open>
  The new-expression \<^verbatim>\<open>safenew(PackedArrayArg, enlarged) Type{ args... }\<close>, where
  \<^verbatim>\<open>safenew\<close> is a macro for \<^verbatim>\<open>new\<close>: the allocation function is called with
  \<^verbatim>\<open>sizeof(Type)\<close> and the placement arguments; an exception of the allocation function
  propagates; when the constructor throws, the deallocation function with the same
  placement arguments is called on the storage and the exception propagates.
\<close>

definition new_PackedArray ::
  "'w::len word Traits \<Rightarrow> 'w word \<Rightarrow> pointer \<Rightarrow> bool \<Rightarrow> 'w word event list
     \<Rightarrow> (failure + nat) \<times> 'w word event list" where
  "new_PackedArray T enlarged heap ctor log =
     (case operator_new_PackedArray heap (sizeof_Type T) enlarged log of
        (Inl e, log1) \<Rightarrow> (Inl e, log1)
      | (Inr a, log1) \<Rightarrow>
          if ctor then (Inr a, log1 @ [Constructed a])
          else (Inl constructor_threw, operator_delete_PackedArray a enlarged log1))"

text \<open>
  \<^verbatim>\<open>AllocateBytes<Type>(enlarged)(args...)\<close>:
  \<^verbatim>\<open>Ptr<Type>{ safenew(PackedArrayArg, enlarged) Type{ args... },
                 std::max(sizeof(Type), enlarged) }\<close>, the second initializer being the
  argument of the constructor of the deleter.
\<close>

definition AllocateBytes ::
  "'w::len word Traits \<Rightarrow> 'w word \<Rightarrow> pointer \<Rightarrow> bool \<Rightarrow> 'w word event list
     \<Rightarrow> (failure + 'w word Ptr) \<times> 'w word event list" where
  "AllocateBytes T enlarged heap ctor log =
     (case new_PackedArray T enlarged heap ctor log of
        (Inl e, log1) \<Rightarrow> (Inl e, log1)
      | (Inr a, log1) \<Rightarrow>
          (Inr \<lparr>get = Some a,
                get_deleter = Deleter_ctor T (max (sizeof_Type T) enlarged)\<rparr>, log1))"

text \<open>
  \<^verbatim>\<open>size_t bytes = (std::is_empty_v<header_type> ? 0 : sizeof(header_type))
      + count * sizeof(typename Traits<Type>::element_type);
   return AllocateBytes<Type>(bytes);\<close>
\<close>

definition AllocateCount ::
  "'w::len word Traits \<Rightarrow> 'w word \<Rightarrow> pointer \<Rightarrow> bool \<Rightarrow> 'w word event list
     \<Rightarrow> (failure + 'w word Ptr) \<times> 'w word event list" where
  "AllocateCount T count heap ctor log =
     (let bytes = (if is_empty_header T then 0 else sizeof_header T)
                    + count * sizeof_element T
      in AllocateBytes T bytes heap ctor log)"

subsection \<open>Some instantiations\<close>

text \<open>
  The primary template \<^verbatim>\<open>Traits<int>\<close> with 64-bit \<^verbatim>\<open>size_t\<close> and 4-byte \<^verbatim>\<open>int\<close>: the
  header type is the empty \<^verbatim>\<open>struct header_type {}\<close>, of size 1, and the empty base
  takes no room in \<^verbatim>\<open>Overlay\<close>.
\<close>

definition Traits_int :: "64 word Traits" where
  "Traits_int =
     \<lparr>sizeof_Type = 4, sizeof_header = 1, is_empty_header = True, sizeof_element = 4,
      sizeof_iterated = 4, sizeof_Overlay = 4, offsetof_elements = 0\<rparr>"

text \<open>
  A specialization for \<^verbatim>\<open>struct M { size_t n; double data[1]; }\<close> with
  \<^verbatim>\<open>header_type = struct { size_t n; }\<close> and \<^verbatim>\<open>element_type = iterated_type = double\<close>:
  no padding anywhere.
\<close>

definition Traits_size_double :: "64 word Traits" where
  "Traits_size_double =
     \<lparr>sizeof_Type = 16, sizeof_header = 8, is_empty_header = False, sizeof_element = 8,
      sizeof_iterated = 8, sizeof_Overlay = 16, offsetof_elements = 8\<rparr>"

text \<open>
  A specialization for \<^verbatim>\<open>struct M { double d; char text[1]; }\<close> with
  \<^verbatim>\<open>header_type = struct { double d; }\<close> and \<^verbatim>\<open>element_type = iterated_type = char\<close>:
  the array is at offset 8 and seven bytes of padding follow it, in \<^verbatim>\<open>M\<close> and in
  \<^verbatim>\<open>Overlay\<close> alike.
\<close>

definition Traits_double_char :: "64 word Traits" where
  "Traits_double_char =
     \<lparr>sizeof_Type = 16, sizeof_header = 8, is_empty_header = False, sizeof_element = 1,
      sizeof_iterated = 1, sizeof_Overlay = 16, offsetof_elements = 8\<rparr>"

text \<open>
  A specialization for \<^verbatim>\<open>struct M { int n; double data[1]; }\<close> with
  \<^verbatim>\<open>header_type = struct { int n; }\<close> and \<^verbatim>\<open>element_type = iterated_type = double\<close>:
  four bytes of padding precede the array, which is at offset 8.
\<close>

definition Traits_int_double :: "64 word Traits" where
  "Traits_int_double =
     \<lparr>sizeof_Type = 16, sizeof_header = 4, is_empty_header = False, sizeof_element = 8,
      sizeof_iterated = 8, sizeof_Overlay = 16, offsetof_elements = 8\<rparr>"

section \<open>Teardown\<close>

lemma destroy_elements_unfold:
  "destroy_elements count (uint count) log =
     log @ map (\<lambda>i. DestroyElement (int i)) (rev [0..<unat count])"
proof (induction "unat count" arbitrary: count log)
  case 0
  then have "count = 0" by (simp add: unat_eq_0)
  then show ?case by (simp add: destroy_elements.simps)
next
  case (Suc n)
  then have nz: "count \<noteq> 0" by auto
  have pred: "unat (count - 1) = n"
    using Suc.hyps(2) nz by (simp add: unat_minus_one)
  have idx: "uint count - 1 = int n"
    using Suc.hyps(2) [symmetric] by (simp add: uint_nat)
  have idx': "uint (count - 1) = int n"
    using pred by (simp add: uint_nat)
  have "destroy_elements count (uint count) log =
      destroy_elements (count - 1) (uint (count - 1)) (log @ [DestroyElement (int n)])"
    using nz idx idx' by (subst destroy_elements.simps) simp
  also have "\<dots> = (log @ [DestroyElement (int n)]) @
      map (\<lambda>i. DestroyElement (int i)) (rev [0..<n])"
    using Suc.hyps(1) [of "count - 1" "log @ [DestroyElement (int n)]"] pred by simp
  also have "\<dots> = log @ map (\<lambda>i. DestroyElement (int i)) (rev [0..<unat count])"
    using Suc.hyps(2) [symmetric] by simp
  finally show ?case .
qed

text \<open>
  C1. Called on a non-null block with stored count \<open>N\<close>, the deleter appends to the log
  the destruction of the elements \<open>N - 1, N - 2, \<dots>, 0\<close> in this order, then one
  destruction of the header, then one call of the base deleter on the block, and nothing
  else.
\<close>

theorem Deleter_call_order:
  "Deleter_call d (Some a) log =
     log @ map (\<lambda>i. DestroyElement (int i)) (rev [0..<unat (GetCount d)])
       @ [DestroyHeader, BaseDelete a]"
  by (simp add: Deleter_call_def GetCount_def destroy_elements_unfold)

text \<open>The instance of the specification's test: five elements.\<close>

lemma Deleter_call_five:
  "Deleter_call \<lparr>mCount = (5 :: 64 word)\<rparr> (Some a) [] =
     [DestroyElement 4, DestroyElement 3, DestroyElement 2, DestroyElement 1,
      DestroyElement 0, DestroyHeader, BaseDelete a]"
  by (simp add: Deleter_call_def destroy_elements.simps)

text \<open>
  C4. The deleter called on a null pointer calls no element destructor, no header
  destructor and no base deleter: the log is returned as it was. Destroying a
  default-constructed \<open>Ptr\<close> therefore leaves the log unchanged too.
\<close>

theorem Deleter_call_null_noop:
  "Deleter_call d None log = log \<and> Ptr_destroy (Ptr_default T) log = log"
  by (simp add: Deleter_call_def Ptr_destroy_def Ptr_default_def)

section \<open>The stored count\<close>

lemma unat_sub_wraps:
  fixes a b :: "'w::len word"
  assumes "a < b"
  shows "unat (a - b) = 2 ^ LENGTH('w) + unat a - unat b"
  using assms unat_sub_if' [of a b] by (simp add: word_less_nat_alt)

text \<open>
  C5. The constructor of the deleter takes the byte size, 0 by default, and stores
  \<open>(size - sizeof(header_type)) / sizeof(element_type)\<close> computed on \<^verbatim>\<open>size_t\<close>, whatever
  the size is. For a size below the size of the header the difference is the wrapped
  value \<open>2 ^ w + size - sizeof(header_type)\<close>, the stored count is its quotient by the
  element size, and it is at least \<open>(2 ^ w - sizeof(header_type)) / sizeof(element_type)\<close>.
\<close>

theorem Deleter_ctor_wraps:
  fixes T :: "'w::len word Traits"
  shows "Deleter_default T = Deleter_ctor T 0 \<and>
    GetCount (Deleter_ctor T sz) = (sz - sizeof_header T) div sizeof_element T \<and>
    (sz < sizeof_header T \<longrightarrow>
      unat (sz - sizeof_header T) = 2 ^ LENGTH('w) + unat sz - unat (sizeof_header T) \<and>
      unat (GetCount (Deleter_ctor T sz)) =
        (2 ^ LENGTH('w) + unat sz - unat (sizeof_header T)) div unat (sizeof_element T) \<and>
      (2 ^ LENGTH('w) - unat (sizeof_header T)) div unat (sizeof_element T)
        \<le> unat (GetCount (Deleter_ctor T sz)))"
proof -
  have "(2 ^ LENGTH('w) - unat (sizeof_header T)) div unat (sizeof_element T)
      \<le> (2 ^ LENGTH('w) + unat sz - unat (sizeof_header T)) div unat (sizeof_element T)"
    by (rule div_le_mono) simp
  then show ?thesis
    by (simp add: GetCount_def Deleter_ctor_def Deleter_default_def unat_div unat_sub_wraps)
qed

theorem Deleter_ctor_wraps_witness:
  "(0 :: 64 word) < sizeof_header Traits_int \<and>
   unat (GetCount (Deleter_ctor Traits_int 0)) = 4611686018427387903"
  using Deleter_ctor_wraps [of Traits_int 0] by (simp add: Traits_int_def)

text \<open>
  C10. A default-constructed \<open>Ptr\<close> holds the null pointer and a deleter built from size
  0, so its \<open>Count\<close> is \<open>(0 - sizeof(header_type)) / sizeof(element_type)\<close>. The size of a
  header type is never 0, so the difference wraps to \<open>2 ^ w - sizeof(header_type)\<close>; and
  when a header and one element together do not exceed \<open>2 ^ w\<close> bytes, as for every type
  a compiler accepts, the count is not 0.
\<close>

theorem Ptr_default_Count:
  fixes T :: "'w::len word Traits"
  shows "get (Ptr_default T) = None \<and>
    Count (Ptr_default T) = (0 - sizeof_header T) div sizeof_element T \<and>
    (sizeof_header T \<noteq> 0 \<longrightarrow>
      unat (0 - sizeof_header T) = 2 ^ LENGTH('w) - unat (sizeof_header T) \<and>
      unat (Count (Ptr_default T)) =
        (2 ^ LENGTH('w) - unat (sizeof_header T)) div unat (sizeof_element T)) \<and>
    (sizeof_header T \<noteq> 0 \<and> sizeof_element T \<noteq> 0 \<and>
       unat (sizeof_header T) + unat (sizeof_element T) \<le> 2 ^ LENGTH('w) \<longrightarrow>
      Count (Ptr_default T) \<noteq> 0)"
proof -
  let ?h = "sizeof_header T" and ?e = "sizeof_element T"
  have cnt: "Count (Ptr_default T) = (0 - ?h) div ?e"
    by (simp add: Count_def GetCount_def Ptr_default_def Deleter_default_def Deleter_ctor_def)
  have wrap: "unat (0 - ?h) = 2 ^ LENGTH('w) - unat ?h" if "?h \<noteq> 0"
    using that unat_sub_wraps [of 0 ?h] by (simp add: word_neq_0_conv)
  have nz: "Count (Ptr_default T) \<noteq> 0"
    if "?h \<noteq> 0" "?e \<noteq> 0" "unat ?h + unat ?e \<le> 2 ^ LENGTH('w)"
  proof -
    have "0 < unat ?e" using that(2) by (simp add: unat_gt_0)
    moreover have "unat ?e \<le> 2 ^ LENGTH('w) - unat ?h" using that(3) by simp
    ultimately have "0 < (2 ^ LENGTH('w) - unat ?h) div unat ?e"
      by (simp add: div_greater_zero_iff)
    then have "0 < unat ((0 - ?h) div ?e)"
      using wrap [OF that(1)] by (simp add: unat_div)
    then show ?thesis using cnt by (auto simp: unat_gt_0)
  qed
  show ?thesis
    using cnt wrap nz by (simp add: Ptr_default_def unat_div)
qed

theorem Ptr_default_Count_witness:
  "sizeof_header Traits_int \<noteq> 0 \<and> sizeof_element Traits_int \<noteq> 0 \<and>
   unat (sizeof_header Traits_int) + unat (sizeof_element Traits_int) \<le> 2 ^ 64 \<and>
   get (Ptr_default Traits_int) = None \<and>
   Count (Ptr_default Traits_int) = 4611686018427387903"
  using Ptr_default_Count [of Traits_int]
  by (simp add: Traits_int_def)

section \<open>Iteration and subscripting\<close>

lemma pointer_value_Some:
  assumes "0 < a" "a < 2 ^ LENGTH('w)"
  shows "pointer_value (Some a) = (of_nat a :: 'w::len word)"
    and "pointer_value (Some a) \<noteq> (0 :: 'w::len word)"
proof -
  show v: "pointer_value (Some a) = (of_nat a :: 'w word)"
    by (simp add: pointer_value_def)
  have "(of_nat a :: 'w word) \<noteq> 0"
    using assms by (rule of_nat_neq_0)
  then show "pointer_value (Some a) \<noteq> (0 :: 'w word)"
    using v by simp
qed

text \<open>
  C7. \<open>begin\<close> of a handle is null when the block is null; for a block at the address
  \<open>a\<close> it is \<open>a\<close> advanced by \<open>sizeof(header_type)\<close> bytes when the header type is not
  empty and by 0 bytes when it is. \<open>end\<close> is null when \<open>begin\<close> is null and otherwise
  \<open>begin\<close> advanced by \<open>N\<close> elements of the iterated type, \<open>N\<close> being the count stored
  in the deleter of the handle. Hence both are null on an empty handle, so that a loop
  from \<open>begin\<close> to \<open>end\<close> visits nothing, and they are equal when \<open>N\<close> is 0.
\<close>

theorem begin_end_Ptr:
  fixes T :: "'w::len word Traits"
  shows "(get p = None \<longrightarrow> begin_Ptr T p = 0 \<and> end_Ptr T p = 0) \<and>
    (get p = Some a \<and> 0 < a \<and> a < 2 ^ LENGTH('w) \<longrightarrow>
      begin_Ptr T p = of_nat a + (if is_empty_header T then 0 else sizeof_header T)) \<and>
    (begin_Ptr T p \<noteq> 0 \<longrightarrow>
      end_Ptr T p = begin_Ptr T p + mCount (get_deleter p) * sizeof_iterated T) \<and>
    (begin_Ptr T p = 0 \<longrightarrow> end_Ptr T p = 0) \<and>
    (mCount (get_deleter p) = 0 \<longrightarrow> end_Ptr T p = begin_Ptr T p)"
proof -
  have null: "begin_Ptr T p = 0 \<and> end_Ptr T p = 0" if "get p = None"
    using that by (simp add: begin_Ptr_def end_Ptr_def pointer_value_def)
  have block: "begin_Ptr T p = of_nat a + (if is_empty_header T then 0 else sizeof_header T)"
    if "get p = Some a" "0 < a" "a < 2 ^ LENGTH('w)"
    using that pointer_value_Some [OF that(2,3)] by (simp add: begin_Ptr_def Let_def)
  have adv: "end_Ptr T p = begin_Ptr T p + mCount (get_deleter p) * sizeof_iterated T"
    if "begin_Ptr T p \<noteq> 0"
    using that by (simp add: end_Ptr_def Count_def GetCount_def Let_def)
  have stay: "end_Ptr T p = 0" if "begin_Ptr T p = 0"
    using that by (simp add: end_Ptr_def)
  have zero: "end_Ptr T p = begin_Ptr T p" if "mCount (get_deleter p) = 0"
    using that by (simp add: end_Ptr_def Count_def GetCount_def Let_def)
  show ?thesis
    using null block adv stay zero by blast
qed

theorem begin_end_Ptr_witness:
  "get (Ptr_default Traits_int) = None \<and>
   begin_Ptr Traits_int (Ptr_default Traits_int) = 0 \<and>
   end_Ptr Traits_int (Ptr_default Traits_int) = 0 \<and>
   get \<lparr>get = Some 4096, get_deleter = \<lparr>mCount = 3 :: 64 word\<rparr>\<rparr> = Some 4096 \<and>
   (0 :: nat) < 4096 \<and> (4096 :: nat) < 2 ^ 64 \<and>
   begin_Ptr Traits_size_double \<lparr>get = Some 4096, get_deleter = \<lparr>mCount = 3\<rparr>\<rparr> = 4104 \<and>
   begin_Ptr Traits_size_double \<lparr>get = Some 4096, get_deleter = \<lparr>mCount = 3\<rparr>\<rparr> \<noteq> 0 \<and>
   end_Ptr Traits_size_double \<lparr>get = Some 4096, get_deleter = \<lparr>mCount = 3\<rparr>\<rparr> = 4128 \<and>
   mCount (get_deleter \<lparr>get = Some 4096, get_deleter = \<lparr>mCount = 0 :: 64 word\<rparr>\<rparr>) = 0 \<and>
   end_Ptr Traits_size_double \<lparr>get = Some 4096, get_deleter = \<lparr>mCount = 0\<rparr>\<rparr> = 4104 \<and>
   begin_Ptr Traits_size_double \<lparr>get = Some 4096, get_deleter = \<lparr>mCount = 0\<rparr>\<rparr> = 4104"
  using begin_end_Ptr [of "Ptr_default Traits_int" Traits_int]
    begin_end_Ptr
      [of "\<lparr>get = Some 4096, get_deleter = \<lparr>mCount = 3\<rparr>\<rparr>" Traits_size_double 4096]
    begin_end_Ptr
      [of "\<lparr>get = Some 4096, get_deleter = \<lparr>mCount = 0\<rparr>\<rparr>" Traits_size_double 4096]
  by (simp add: Ptr_default_def Traits_size_double_def)

text \<open>
  A default-constructed handle for \<^verbatim>\<open>int\<close> carries the count \<open>2 ^ 62 - 1\<close>; with a block
  at 4096 stored in it, \<open>end\<close> is four bytes below \<open>begin\<close>.
\<close>

lemma end_Ptr_wraps:
  "begin_Ptr Traits_int \<lparr>get = Some 4096, get_deleter = Deleter_default Traits_int\<rparr> = 4096 \<and>
   end_Ptr Traits_int \<lparr>get = Some 4096, get_deleter = Deleter_default Traits_int\<rparr> = 4092"
  by (simp add: begin_Ptr_def end_Ptr_def pointer_value_def Count_def GetCount_def
      Deleter_default_def Deleter_ctor_def Traits_int_def)

text \<open>
  C8. On a handle whose \<open>begin\<close> is not null the subscript operator yields, for every
  index \<open>i\<close>, the address \<open>begin + i\<close>, that is \<open>begin\<close> advanced by \<open>i\<close> elements of the
  iterated type in the arithmetic of the machine. The stored count plays no part: the
  result is the same whatever deleter the handle carries, so no index is rejected.
\<close>

theorem subscript_unchecked:
  fixes T :: "'w::len word Traits"
  shows "(begin_Ptr T p \<noteq> 0 \<longrightarrow>
      subscript T p ii = Inr (begin_Ptr T p + ii * sizeof_iterated T)) \<and>
    subscript T (p\<lparr>get_deleter := d\<rparr>) ii = subscript T p ii"
  by (simp add: subscript_def begin_Ptr_def)

theorem subscript_unchecked_witness:
  "begin_Ptr Traits_int \<lparr>get = Some 4096, get_deleter = \<lparr>mCount = 2\<rparr>\<rparr> \<noteq> 0 \<and>
   begin_Ptr Traits_int \<lparr>get = Some 4096, get_deleter = \<lparr>mCount = 2\<rparr>\<rparr> = 4096 \<and>
   subscript Traits_int \<lparr>get = Some 4096, get_deleter = \<lparr>mCount = 2\<rparr>\<rparr> 1 = Inr 4100 \<and>
   subscript Traits_int \<lparr>get = Some 4096, get_deleter = \<lparr>mCount = 2\<rparr>\<rparr> 7 = Inr 4124 \<and>
   subscript Traits_int \<lparr>get = Some 4096, get_deleter = \<lparr>mCount = 2\<rparr>\<rparr>
     4611686018427387904 = Inr 4096"
  using subscript_unchecked
      [of Traits_int "\<lparr>get = Some 4096, get_deleter = \<lparr>mCount = 2\<rparr>\<rparr>" 1]
    subscript_unchecked
      [of Traits_int "\<lparr>get = Some 4096, get_deleter = \<lparr>mCount = 2\<rparr>\<rparr>" 7]
    subscript_unchecked
      [of Traits_int "\<lparr>get = Some 4096, get_deleter = \<lparr>mCount = 2\<rparr>\<rparr>" 4611686018427387904]
  by (simp add: begin_Ptr_def pointer_value_def Traits_int_def)

section \<open>Allocation\<close>

text \<open>
  C6. For every byte count, \<open>AllocateBytes\<close> makes one call of \<^verbatim>\<open>::operator new\<close>, with
  the size \<open>max(sizeof(Type), totalBytes)\<close>, which is never below \<open>sizeof(Type)\<close>. When
  the allocation and the constructor succeed, the object is constructed at the address
  returned and the handle holds that address and a deleter built from the same size
  \<open>max(sizeof(Type), totalBytes)\<close>. When the allocation fails nothing else happens.
\<close>

theorem AllocateBytes_allocation:
  fixes T :: "'w::len word Traits"
  shows "AllocateBytes T totalBytes (Some a) True log =
      (Inr \<lparr>get = Some a, get_deleter = Deleter_ctor T (max (sizeof_Type T) totalBytes)\<rparr>,
       log @ [OperatorNew (max (sizeof_Type T) totalBytes), Constructed a]) \<and>
    AllocateBytes T totalBytes None ctor log =
      (Inl bad_alloc, log @ [OperatorNew (max (sizeof_Type T) totalBytes)]) \<and>
    sizeof_Type T \<le> max (sizeof_Type T) totalBytes"
  by (simp add: AllocateBytes_def new_PackedArray_def operator_new_PackedArray_def
      global_operator_new_def)

text \<open>
  C9. When the allocation succeeds and the constructor of the managed type throws, the
  storage is passed to \<^verbatim>\<open>::operator delete\<close> once, no element or header destructor and no
  base deleter runs, and no handle is returned.
\<close>

theorem AllocateBytes_constructor_throws:
  fixes T :: "'w::len word Traits"
  shows "AllocateBytes T totalBytes (Some a) False log =
      (Inl constructor_threw,
       log @ [OperatorNew (max (sizeof_Type T) totalBytes), OperatorDelete a])"
  by (simp add: AllocateBytes_def new_PackedArray_def operator_new_PackedArray_def
      global_operator_new_def operator_delete_PackedArray_def global_operator_delete_def)

subsection \<open>The count of an allocation by element count\<close>

lemma AllocateCount_success:
  fixes T :: "'w::len word Traits"
  shows "AllocateCount T count (Some a) True log =
    (Inr \<lparr>get = Some a,
          get_deleter = \<lparr>mCount =
            (max (sizeof_Type T)
               ((if is_empty_header T then 0 else sizeof_header T) + count * sizeof_element T)
             - sizeof_header T) div sizeof_element T\<rparr>\<rparr>,
     log @ [OperatorNew (max (sizeof_Type T)
               ((if is_empty_header T then 0 else sizeof_header T) + count * sizeof_element T)),
            Constructed a])"
  by (simp add: AllocateCount_def AllocateBytes_def new_PackedArray_def
      operator_new_PackedArray_def global_operator_new_def Deleter_ctor_def Let_def)

text \<open>
  C2. For the primary template at \<^verbatim>\<open>int\<close>, whose header type is empty,
  \<open>AllocateCount\<close> with the counts 0, 1, 5 and 100 yields handles whose \<open>Count\<close> is
  0, 0, 4 and 99: the size of the empty header type, 1, is subtracted from the byte size
  before the division, so every nonzero count comes out one too small.
\<close>

theorem AllocateCount_int_counts:
  "map (\<lambda>count. case AllocateCount Traits_int count (Some a) True [] of
                   (Inr p, log) \<Rightarrow> Some (Count p)
                 | (Inl e, log) \<Rightarrow> None)
     [0, 1, 5, 100] = [Some 0, Some 0, Some 4, Some 99]"
  by (simp add: AllocateCount_success Traits_int_def Count_def GetCount_def)

text \<open>
  The same for every instantiation with an empty header type where the managed type is
  the element type and the header type is no larger than an element: a nonzero count,
  whose array fits the address space, yields \<open>count - 1\<close>.
\<close>

lemma nat_div_pred:
  fixes c e h :: nat
  assumes "0 < c" "0 < h" "h \<le> e"
  shows "(c * e - h) div e = c - 1"
proof -
  obtain k where c: "c = Suc k" using assms(1) by (cases c) auto
  have "c * e - h = k * e + (e - h)" using assms(3) by (simp add: c)
  moreover have "e - h < e" using assms(2,3) by simp
  ultimately show ?thesis by (simp add: c)
qed

lemma empty_header_bytes:
  fixes count e :: "'w::len word"
  assumes "count \<noteq> 0" "unat count * unat e < 2 ^ LENGTH('w)"
  shows "max e (0 + count * e) = count * e"
proof -
  have m: "unat (count * e) = unat count * unat e"
    using assms(2) by (simp add: unat_mult_lem)
  have "0 < unat count" using assms(1) by (simp add: unat_gt_0)
  then have "unat e \<le> unat count * unat e" by simp
  then have "e \<le> count * e" by (simp add: word_le_nat_alt m)
  then show ?thesis by (simp add: max_def)
qed

lemma empty_header_count:
  fixes count e h :: "'w::len word"
  assumes "h \<noteq> 0" "h \<le> e" "count \<noteq> 0" "unat count * unat e < 2 ^ LENGTH('w)"
  shows "(count * e - h) div e = count - 1"
proof -
  have uh: "0 < unat h" "unat h \<le> unat e"
    using assms(1,2) by (simp_all add: unat_gt_0 word_le_nat_alt)
  have uc: "0 < unat count" using assms(3) by (simp add: unat_gt_0)
  have m: "unat (count * e) = unat count * unat e"
    using assms(4) by (simp add: unat_mult_lem)
  have "unat e \<le> unat count * unat e" using uc by simp
  then have "unat h \<le> unat count * unat e" using uh(2) by (rule order_trans [rotated])
  then have "h \<le> count * e" by (simp add: word_le_nat_alt m)
  then have "unat (count * e - h) = unat count * unat e - unat h"
    by (simp add: unat_sub m)
  then have "unat ((count * e - h) div e) = unat count - 1"
    using nat_div_pred [OF uc uh] by (simp add: unat_div)
  also have "\<dots> = unat (count - 1)" using assms(3) by (simp add: unat_minus_one)
  finally show ?thesis by (simp add: word_unat_eq_iff)
qed

lemma AllocateCount_empty_header:
  fixes T :: "'w::len word Traits"
  assumes "is_empty_header T" "sizeof_Type T = sizeof_element T"
    and "sizeof_header T \<noteq> 0" "sizeof_header T \<le> sizeof_element T"
    and "count \<noteq> 0" "unat count * unat (sizeof_element T) < 2 ^ LENGTH('w)"
  shows "AllocateCount T count (Some a) True log =
    (Inr \<lparr>get = Some a, get_deleter = \<lparr>mCount = count - 1\<rparr>\<rparr>,
     log @ [OperatorNew (count * sizeof_element T), Constructed a])"
  using assms empty_header_bytes [OF assms(5,6)] empty_header_count [OF assms(3-6)]
  by (simp add: AllocateCount_success)

text \<open>
  With a non-empty header type, a managed type that is exactly a header and one element,
  and no overflow in the byte count, the stored count is \<open>max(count, 1)\<close>.
\<close>

lemma header_count:
  fixes count e h S :: "'w::len word"
  assumes "unat S = unat h + unat e" "e \<noteq> 0"
    and "unat h + unat count * unat e < 2 ^ LENGTH('w)"
  shows "(max S (h + count * e) - h) div e = max count 1"
proof -
  have ue: "0 < unat e" using assms(2) by (simp add: unat_gt_0)
  have "unat count * unat e < 2 ^ LENGTH('w)"
    using assms(3) by simp
  then have m: "unat (count * e) = unat count * unat e"
    by (simp add: unat_mult_lem)
  have a: "unat (h + count * e) = unat h + unat count * unat e"
    using assms(3) m by (simp add: unat_add_lem [THEN iffD1])
  show ?thesis
  proof (cases "count = 0")
    case True
    have "h \<le> S" using assms(1) by (simp add: word_le_nat_alt)
    then have "unat (S - h) = unat e" using assms(1) by (simp add: unat_sub)
    then have "unat ((S - h) div e) = 1" using ue by (simp add: unat_div)
    then have "(S - h) div e = 1" by (simp add: word_unat_eq_iff)
    moreover have "max S h = S" using \<open>h \<le> S\<close> by (simp add: max_def)
    ultimately show ?thesis using True by (simp add: max_def)
  next
    case False
    then have uc: "1 \<le> unat count" by (simp add: unat_gt_0 Suc_leI)
    then have "unat e \<le> unat count * unat e" by simp
    then have "S \<le> h + count * e" using assms(1) a by (simp add: word_le_nat_alt)
    then have mx: "max S (h + count * e) = h + count * e" by (simp add: max_def)
    have "unat ((h + count * e - h) div e) = unat count"
      using ue m by (simp add: unat_div)
    then have q: "(h + count * e - h) div e = count" by (simp add: word_unat_eq_iff)
    have "\<not> count < 1" using False by simp
    then have "1 \<le> count" by (rule leI)
    then have "max count 1 = count" by (rule max.absorb1)
    then show ?thesis using mx q by simp
  qed
qed

lemma AllocateCount_header:
  fixes T :: "'w::len word Traits"
  assumes "\<not> is_empty_header T"
    and "unat (sizeof_Type T) = unat (sizeof_header T) + unat (sizeof_element T)"
    and "sizeof_element T \<noteq> 0"
    and "unat (sizeof_header T) + unat count * unat (sizeof_element T) < 2 ^ LENGTH('w)"
  shows "\<exists>n. AllocateCount T count (Some a) True log =
    (Inr \<lparr>get = Some a, get_deleter = \<lparr>mCount = max count 1\<rparr>\<rparr>,
     log @ [OperatorNew n, Constructed a])"
  using assms(1) header_count [OF assms(2-4)]
  by (simp add: AllocateCount_success)

text \<open>
  A handle allocated for five \<^verbatim>\<open>int\<close>s carries the deleter built from 20 bytes; its
  destruction destroys the elements 3 to 0 only.
\<close>

lemma AllocateCount_int_five_teardown:
  "Ptr_destroy \<lparr>get = Some a, get_deleter = Deleter_ctor Traits_int 20\<rparr> [] =
     [DestroyElement 3, DestroyElement 2, DestroyElement 1, DestroyElement 0,
      DestroyHeader, BaseDelete a]"
  by (simp add: Ptr_destroy_def Deleter_call_def Deleter_ctor_def Traits_int_def
      destroy_elements.simps)

section \<open>The layout assertions\<close>

text \<open>
  Both assertions pass for \<^verbatim>\<open>struct M { double d; char text[1]; }\<close>, whose array is at
  the offset \<open>sizeof(header_type)\<close>, although the sizes of the header and of one element
  add up to 9 and the managed type has 16 bytes.
\<close>

theorem static_asserts_counterexample:
  "static_asserts Traits_double_char \<and>
   \<not> (sizeof_header Traits_double_char + 1 * sizeof_element Traits_double_char
        = sizeof_Type Traits_double_char \<and>
      offsetof_elements Traits_double_char =
        (if is_empty_header Traits_double_char then 0 else sizeof_header Traits_double_char))"
  by (simp add: static_asserts_def static_assert_size_def static_assert_offset_def
      Traits_double_char_def)

text \<open>
  C3, amended. The static assertions enforce that \<open>sizeof(Overlay)\<close>, the size of the
  header type extended by a one-element array, equals \<open>sizeof(managed_type)\<close>: an
  instantiation where the two differ does not compile.
\<close>

theorem static_asserts_size:
  fixes T :: "'w::len word Traits"
  shows "(static_asserts T \<longrightarrow> sizeof_Overlay T = sizeof_Type T) \<and>
    (sizeof_Overlay T \<noteq> sizeof_Type T \<longrightarrow> \<not> static_asserts T)"
  by (simp add: static_asserts_def static_assert_size_def)

theorem static_asserts_size_witness:
  "static_asserts Traits_size_double \<and>
   sizeof_Overlay Traits_size_double = sizeof_Type Traits_size_double \<and>
   sizeof_Overlay (Traits_size_double\<lparr>sizeof_Type := 24\<rparr>)
     \<noteq> sizeof_Type (Traits_size_double\<lparr>sizeof_Type := 24\<rparr>) \<and>
   \<not> static_asserts (Traits_size_double\<lparr>sizeof_Type := 24\<rparr>)"
  using static_asserts_size [of Traits_size_double]
    static_asserts_size [of "Traits_size_double\<lparr>sizeof_Type := 24\<rparr>"]
  by (simp add: static_asserts_def static_assert_size_def static_assert_offset_def
      Traits_size_double_def)

text \<open>
  The assertion on the offset, as the compiler parses it, passes for
  \<^verbatim>\<open>struct M { int n; double data[1]; }\<close>, where the array is at offset 8 and the header
  type has 4 bytes; and it passes for the primary template.
\<close>

lemma static_assert_offset_parsed:
  "static_asserts Traits_int_double \<and>
   offsetof_elements Traits_int_double \<noteq> sizeof_header Traits_int_double \<and>
   static_asserts Traits_int"
  by (simp add: static_asserts_def static_assert_size_def static_assert_offset_def
      Traits_int_double_def Traits_int_def)

end
